theory Spec2Isabelle
  imports Main "HOL-Library.AList"
begin

section \<open>Path syntax translation\<close>

text \<open>
  \<^verbatim>\<open>const expressRouteToOpenApiRoute = (p: string) =>
      p.replace(/:([A-Za-z0-9_]+)/g, '{$1}');\<close>

  A global regular-expression replacement scans the string from the left. At a colon
  followed by at least one character of the class \<^verbatim>\<open>[A-Za-z0-9_]\<close> the match is the
  colon and the longest run of such characters (the quantifier is greedy); the match is
  replaced by the run between braces and the scan goes on after the run. Every other
  character is copied. The replacement text is not scanned again.
\<close>

definition isWordChar :: "char \<Rightarrow> bool" where
  "isWordChar c =
     (let n = (of_char c :: nat)
      in (65 \<le> n \<and> n \<le> 90) \<or> (97 \<le> n \<and> n \<le> 122) \<or> (48 \<le> n \<and> n \<le> 57) \<or> n = 95)"

function expressRouteToOpenApiRoute :: "string \<Rightarrow> string" where
  "expressRouteToOpenApiRoute [] = []"
| "expressRouteToOpenApiRoute (c # s) =
     (if c = CHR '':'' \<and> takeWhile isWordChar s \<noteq> []
      then ''{'' @ takeWhile isWordChar s @ ''}''
             @ expressRouteToOpenApiRoute (dropWhile isWordChar s)
      else c # expressRouteToOpenApiRoute s)"
  by pat_completeness auto
termination
  by (relation "measure length") (auto simp: length_dropWhile_le less_Suc_eq_le)

text \<open>
  The spec's words for the two syntaxes: a path template is a sequence of literal text
  and named placeholders. The framework writes a placeholder as a colon and its name,
  the documentation format writes the name between braces.
\<close>

datatype segment = Lit string | Param string

fun express_syntax :: "segment list \<Rightarrow> string" where
  "express_syntax [] = []"
| "express_syntax (Lit s # segs) = s @ express_syntax segs"
| "express_syntax (Param n # segs) = CHR '':'' # n @ express_syntax segs"

fun openapi_syntax :: "segment list \<Rightarrow> string" where
  "openapi_syntax [] = []"
| "openapi_syntax (Lit s # segs) = s @ openapi_syntax segs"
| "openapi_syntax (Param n # segs) = CHR ''{'' # n @ CHR ''}'' # openapi_syntax segs"

text \<open>A colon-prefixed token: a colon with a name character right after it.\<close>

fun has_token :: "string \<Rightarrow> bool" where
  "has_token [] = False"
| "has_token [c] = False"
| "has_token (c # d # s) = ((c = CHR '':'' \<and> isWordChar d) \<or> has_token (d # s))"

text \<open>
  A segment list reads back as itself when names are non-empty runs of name characters,
  literal text holds no token, no name is followed by literal text that would prolong it,
  and literal text is not split in two.
\<close>

fun starts_with_word :: "segment list \<Rightarrow> bool" where
  "starts_with_word (Lit (c # s) # segs) = isWordChar c"
| "starts_with_word segs = False"

fun starts_with_lit :: "segment list \<Rightarrow> bool" where
  "starts_with_lit (Lit s # segs) = True"
| "starts_with_lit segs = False"

fun well_formed :: "segment list \<Rightarrow> bool" where
  "well_formed [] = True"
| "well_formed (Lit s # segs) =
     (\<not> has_token s \<and> \<not> starts_with_lit segs \<and> well_formed segs)"
| "well_formed (Param n # segs) =
     (n \<noteq> [] \<and> list_all isWordChar n \<and> \<not> starts_with_word segs \<and> well_formed segs)"

section \<open>Structural schemas and the schema library\<close>

text \<open>
  A structural schema is a JSON-like value. An object keeps its properties in the order
  of their first assignment; assigning a property that exists replaces its value in
  place, which is what \<open>AList.update\<close> does. A property whose value is
  \<^verbatim>\<open>undefined\<close> is present with the value \<open>JUndefined\<close>.
\<close>

datatype json =
    JUndefined
  | JBool bool
  | JNum int
  | JStr string
  | JArr "json list"
  | JObj "(string \<times> json) list"

text \<open>
  \<^verbatim>\<open>SchemaResult\<close>, the result of the library's \<^verbatim>\<open>createSchema\<close>: the schema and, when
  there are any, the named components. \<open>None\<close> is an absent (falsy)
  \<^verbatim>\<open>components\<close> field; \<open>Some cs\<close> is a components object with the entries
  \<open>cs\<close> in enumeration order.
\<close>

record SchemaResult =
  sr_schema :: json
  sr_components :: "(string \<times> json) list option"

text \<open>
  What the module can raise: the TypeError of a property access on
  \<^verbatim>\<open>undefined\<close>, and the failure of the file write. A function that can raise
  returns \<open>Inl\<close> of the error or \<open>Inr\<close> of its result; an error result carries
  no state, so what had been stored before the error is not described.
\<close>

datatype error = TypeError | IOError

datatype FileKind = Binary | Array

record FileField =
  ff_name :: string
  ff_required :: "bool option"
  ff_description :: "string option"
  ff_type :: "FileKind option"

datatype MethodType = Get | Post | Put | Patch | Delete
datatype AuthenticatedUser = AuthNone | AuthUser | AuthAdmin
datatype ParamType = InPath | InQuery | InCookie
datatype ContentType = ApplicationJson | MultipartFormData

record ParamsOpenApiSchema =
  p_name :: string
  p_in :: ParamType
  p_required :: bool
  p_schema :: SchemaResult

text \<open>
  A response of an operation: its description, the description of the
  \<^verbatim>\<open>Set-Cookie\<close> header when there is one, and the content type with the reference
  to the schema when there is a content block.
\<close>

record ResponseObject =
  ro_description :: string
  ro_setCookie :: "string option"
  ro_content :: "(ContentType \<times> string) option"

record RequestBody =
  rb_required :: bool
  rb_content :: "ContentType \<times> string"

text \<open>
  The operation \<^verbatim>\<open>op\<close>. The response object is keyed by status code; its keys are
  integers, which an object enumerates in ascending order whatever the order of
  assignment, so a map holds all of its content.
\<close>

record Operation =
  op_summary :: string
  op_parameters :: "ParamsOpenApiSchema list"
  op_responses :: "nat \<rightharpoonup> ResponseObject"
  op_tags :: "string list option"
  op_security :: "(string \<times> string list) list list option"
  op_requestBody :: "RequestBody option"

record 'z RequestSchemas =
  rq_params :: "'z option"
  rq_query :: "'z option"
  rq_body :: "'z option"
  rq_contentType :: "ContentType option"
  rq_cookies :: "'z option"
  rq_optionalParams :: "string list option"
  rq_fileFields :: "FileField list option"

record 'z ResponseDescriptor =
  rs_description :: string
  rs_schema :: "'z option"
  rs_cookies :: "string option"
  rs_contentType :: "ContentType option"

text \<open>
  \<^verbatim>\<open>AddDocRouteParams\<close>. \<open>rd_responses\<close> is \<^verbatim>\<open>Object.entries(responses)\<close>: the
  declared responses with their status codes, each code once.
\<close>

record 'z AddDocRouteParams =
  rd_name :: string
  rd_route :: string
  rd_method :: MethodType
  rd_summary :: string
  rd_requestSchemas :: "'z RequestSchemas option"
  rd_responses :: "(nat \<times> 'z ResponseDescriptor) list"
  rd_errors :: "string list option"
  rd_authenticatedUser :: AuthenticatedUser
  rd_tags :: "string list option"

type_synonym registry = "string \<rightharpoonup> json"
type_synonym pathTable = "string \<rightharpoonup> (MethodType \<rightharpoonup> Operation)"

text \<open>The argument of the library's \<^verbatim>\<open>createDocument\<close>.\<close>

record DocumentInput =
  di_openapi :: string
  di_info :: "(string \<times> string) list"
  di_paths :: pathTable
  di_schemas :: registry
  di_securitySchemes :: "(string \<times> (string \<times> string) list) list"

text \<open>
  What the module imports and does not define. \<open>'z\<close> is the type of the schema
  library's schema values (\<^verbatim>\<open>ZodTypeAny\<close>), \<open>'d\<close> the type of the document.
  \<^item> \<open>createSchema\<close>, \<open>createDocument\<close>: the conversion library;
  \<^item> \<open>zodObjectShape s\<close>: \<^verbatim>\<open>Object.entries(s.shape)\<close> when \<^verbatim>\<open>s instanceof z.ZodObject\<close>,
    \<open>None\<close> otherwise;
  \<^item> \<open>zString\<close>, \<open>zMeta\<close>, \<open>zExtend\<close>: \<^verbatim>\<open>z.string()\<close>, \<^verbatim>\<open>s.meta({...})\<close>,
    \<^verbatim>\<open>s.extend({...})\<close>;
  \<^item> \<open>stringify d\<close>: \<^verbatim>\<open>JSON.stringify(d, null, 2)\<close>;
  \<^item> \<open>errorNames\<close>: \<^verbatim>\<open>Object.values(ErrorName)\<close>; \<open>UNAUTHORIZED\<close> and
    \<open>VALIDATION_ERROR\<close>: the two members the module names; \<open>errorStatusMap\<close>: the
    table from error kind to status;
  \<^item> \<open>errorSchema\<close>, \<open>baseSchemas\<close>, \<open>NODE_ENV\<close>: the shared constants.
  An error kind is a string at run time: the module uses it as a description, in a
  reference and as a schema name. The library's functions are functions of their
  arguments, and every call returns a value of its own: nothing the module writes into
  one result shows in another.
\<close>

record ('z, 'd) env =
  createSchema :: "'z \<Rightarrow> SchemaResult"
  createDocument :: "DocumentInput \<Rightarrow> 'd"
  zodObjectShape :: "'z \<Rightarrow> (string \<times> 'z) list option"
  zString :: "'z"
  zMeta :: "'z \<Rightarrow> (string \<times> json) list \<Rightarrow> 'z"
  zExtend :: "'z \<Rightarrow> (string \<times> 'z) list \<Rightarrow> 'z"
  stringify :: "'d \<Rightarrow> string"
  errorNames :: "string list"
  UNAUTHORIZED :: string
  VALIDATION_ERROR :: string
  errorStatusMap :: "string \<rightharpoonup> nat"
  errorSchema :: "'z"
  baseSchemas :: "(string \<times> 'z) list"
  NODE_ENV :: string

text \<open>
  The module's state: \<^verbatim>\<open>schemas\<close>, \<^verbatim>\<open>paths\<close>, and the file it writes. The two
  objects are dictionaries from schema names and from translated paths; a key that
  names a property objects inherit (such as \<^verbatim>\<open>constructor\<close>) is outside the model.
\<close>

record state =
  schemas :: registry
  paths :: pathTable
  outputFile :: "string option"

section \<open>Schema registry\<close>

definition optBool :: "bool option \<Rightarrow> json" where
  "optBool b = (case b of None \<Rightarrow> JUndefined | Some v \<Rightarrow> JBool v)"

definition optStr :: "string option \<Rightarrow> json" where
  "optStr s = (case s of None \<Rightarrow> JUndefined | Some v \<Rightarrow> JStr v)"

text \<open>The object assigned for one file field (lines 76 to 92).\<close>

definition fileFieldSchema :: "FileField \<Rightarrow> json" where
  "fileFieldSchema f =
     (if ff_type f = Some Array
      then JObj [(''type'', JStr ''array''),
                 (''required'', optBool (ff_required f)),
                 (''description'', optStr (ff_description f)),
                 (''items'', JObj [(''type'', JStr ''string''), (''format'', JStr ''binary'')])]
      else JObj [(''type'', JStr ''binary''),
                 (''required'', optBool (ff_required f)),
                 (''description'', optStr (ff_description f))])"

text \<open>
  \<^verbatim>\<open>objectSchema.properties[k] = v\<close>. Reading \<^verbatim>\<open>properties\<close> of
  \<^verbatim>\<open>undefined\<close> raises a TypeError, and so does assigning a property of
  \<^verbatim>\<open>undefined\<close> when the object has no \<^verbatim>\<open>properties\<close>. By the library's types
  a component is an object and its \<^verbatim>\<open>properties\<close>, when present, are an object;
  the other shapes are put with the failures.
\<close>

definition setSchemaProperty :: "json \<Rightarrow> string \<Rightarrow> json \<Rightarrow> error + json" where
  "setSchemaProperty objectSchema k v =
     (case objectSchema of
        JObj members \<Rightarrow>
          (case map_of members ''properties'' of
             Some (JObj props) \<Rightarrow>
               Inr (JObj (AList.update ''properties'' (JObj (AList.update k v props)) members))
           | _ \<Rightarrow> Inl TypeError)
      | _ \<Rightarrow> Inl TypeError)"

fun injectFileFields :: "json \<Rightarrow> FileField list \<Rightarrow> error + json" where
  "injectFileFields objectSchema [] = Inr objectSchema"
| "injectFileFields objectSchema (f # fs) =
     (case setSchemaProperty objectSchema (ff_name f) (fileFieldSchema f) of
        Inl e \<Rightarrow> Inl e
      | Inr objectSchema' \<Rightarrow> injectFileFields objectSchema' fs)"

text \<open>\<^verbatim>\<open>Object.values(components)[0]\<close>: \<^verbatim>\<open>undefined\<close> for an object with no entry.\<close>

definition firstComponent :: "(string \<times> json) list \<Rightarrow> json" where
  "firstComponent cs = (case cs of [] \<Rightarrow> JUndefined | (k, v) # _ \<Rightarrow> v)"

text \<open>
  \<^verbatim>\<open>addZodSchema(name, schema, fileFields = [])\<close> returns the boolean and the
  registry after it, or the error it raises.
\<close>

definition addZodSchema ::
  "('z, 'd) env \<Rightarrow> string \<Rightarrow> 'z \<Rightarrow> FileField list \<Rightarrow> registry \<Rightarrow> error + (bool \<times> registry)" where
  "addZodSchema E name schema fileFields reg =
     (case sr_components (createSchema E schema) of
        None \<Rightarrow> Inr (False, reg)
      | Some cs \<Rightarrow>
          (case injectFileFields (firstComponent cs) fileFields of
             Inl e \<Rightarrow> Inl e
           | Inr objectSchema \<Rightarrow> Inr (True, reg(name \<mapsto> objectSchema))))"

section \<open>Parameter extraction\<close>

definition generateParamDocFromSchema ::
  "('z, 'd) env \<Rightarrow> string \<Rightarrow> 'z option \<Rightarrow> ParamType \<Rightarrow> string list \<Rightarrow> registry
     \<Rightarrow> error + (ParamsOpenApiSchema list \<times> registry)" where
  "generateParamDocFromSchema E name schema loc optionalParams reg =
     (case schema of
        None \<Rightarrow> Inr ([], reg)
      | Some s \<Rightarrow>
          if name = [] then Inr ([], reg)
          else
            (case addZodSchema E name s [] reg of
               Inl e \<Rightarrow> Inl e
             | Inr (addedSchema, reg') \<Rightarrow>
                 if \<not> addedSchema then Inr ([], reg')
                 else
                   (case zodObjectShape E s of
                      None \<Rightarrow> Inr ([], reg')
                    | Some entries \<Rightarrow>
                        Inr (map (\<lambda>(k, v).
                                    \<lparr>p_name = k, p_in = loc,
                                     p_required = (if k \<in> set optionalParams then False else True),
                                     p_schema = createSchema E v\<rparr>) entries,
                             reg'))))"

section \<open>Operation compiler\<close>

text \<open>\<^verbatim>\<open>if (!errors.includes(e)) { errors.push(e); }\<close>\<close>

definition pushIfMissing :: "string \<Rightarrow> string list \<Rightarrow> string list" where
  "pushIfMissing e errors = (if e \<in> set errors then errors else errors @ [e])"

text \<open>\<^verbatim>\<open>errorStatusMap[err] ?? 500\<close>\<close>

definition errorStatus :: "('z, 'd) env \<Rightarrow> string \<Rightarrow> nat" where
  "errorStatus E err = (case errorStatusMap E err of None \<Rightarrow> 500 | Some status \<Rightarrow> status)"

definition bearerAuth :: "(string \<times> string list) list" where
  "bearerAuth = [(''bearerAuth'', [])]"

text \<open>The decimal text of a status code, as the template literal prints it.\<close>

function decimal :: "nat \<Rightarrow> string" where
  "decimal n =
     (if n < 10 then [''0123456789'' ! n]
      else decimal (n div 10) @ [''0123456789'' ! (n mod 10)])"
  by pat_completeness auto
termination
  by (relation "measure id") auto

declare decimal.simps [simp del]

text \<open>Lines 138 to 143: the authentication requirement.\<close>

definition authStep ::
  "('z, 'd) env \<Rightarrow> AuthenticatedUser \<Rightarrow> Operation \<times> string list \<Rightarrow> Operation \<times> string list" where
  "authStep E authenticatedUser = (\<lambda>(op, errors).
     if authenticatedUser \<noteq> AuthNone
     then (op\<lparr>op_security := Some [bearerAuth]\<rparr>, pushIfMissing (UNAUTHORIZED E) errors)
     else (op, errors))"

text \<open>
  Lines 145 to 184, once for each of the three locations: extract the parameters and,
  when there are any, record the validation error and append them.
\<close>

definition paramStep ::
  "('z, 'd) env \<Rightarrow> string \<Rightarrow> 'z option \<Rightarrow> ParamType \<Rightarrow> string list
     \<Rightarrow> Operation \<times> string list \<times> registry \<Rightarrow> error + (Operation \<times> string list \<times> registry)" where
  "paramStep E name schema loc optionalParams = (\<lambda>(op, errors, reg).
     case generateParamDocFromSchema E name schema loc optionalParams reg of
       Inl e \<Rightarrow> Inl e
     | Inr (ps, reg') \<Rightarrow>
         if length ps > 0
         then Inr (op\<lparr>op_parameters := op_parameters op @ ps\<rparr>,
                   pushIfMissing (VALIDATION_ERROR E) errors, reg')
         else Inr (op, errors, reg'))"

text \<open>Lines 186 to 205: the request body.\<close>

definition bodyStep ::
  "('z, 'd) env \<Rightarrow> string \<Rightarrow> 'z RequestSchemas option
     \<Rightarrow> Operation \<times> string list \<times> registry \<Rightarrow> error + (Operation \<times> string list \<times> registry)" where
  "bodyStep E name requestSchemas = (\<lambda>(op, errors, reg).
     case requestSchemas of
       None \<Rightarrow> Inr (op, errors, reg)
     | Some rq \<Rightarrow>
         (case rq_body rq of
            None \<Rightarrow> Inr (op, errors, reg)
          | Some body \<Rightarrow>
              (case addZodSchema E (name @ '':body'') body
                      (case rq_fileFields rq of None \<Rightarrow> [] | Some fs \<Rightarrow> fs) reg of
                 Inl e \<Rightarrow> Inl e
               | Inr (addedSchema, reg') \<Rightarrow>
                   if addedSchema
                   then Inr (op\<lparr>op_requestBody := Some
                               \<lparr>rb_required = True,
                                rb_content =
                                  (case rq_contentType rq of None \<Rightarrow> ApplicationJson | Some ct \<Rightarrow> ct,
                                   ''#/components/schemas/'' @ name @ '':body'')\<rparr>\<rparr>,
                             pushIfMissing (VALIDATION_ERROR E) errors, reg')
                   else Inr (op, errors, reg'))))"

text \<open>
  Lines 207 to 244: the declared responses. A cookie note that is the empty string is
  falsy and gives no header.
\<close>

fun responsesLoop ::
  "('z, 'd) env \<Rightarrow> string \<Rightarrow> (nat \<times> 'z ResponseDescriptor) list
     \<Rightarrow> (nat \<rightharpoonup> ResponseObject) \<times> registry \<Rightarrow> error + ((nat \<rightharpoonup> ResponseObject) \<times> registry)" where
  "responsesLoop E name [] (rs, reg) = Inr (rs, reg)"
| "responsesLoop E name ((statusCode, r) # rest) (rs, reg) =
     (case rs_schema r of
        Some schema \<Rightarrow>
          (case addZodSchema E (name @ '':response'' @ decimal statusCode) schema [] reg of
             Inl e \<Rightarrow> Inl e
           | Inr (addedSchema, reg') \<Rightarrow>
               if addedSchema
               then responsesLoop E name rest
                      (rs(statusCode \<mapsto>
                          \<lparr>ro_description = rs_description r,
                           ro_setCookie =
                             (case rs_cookies r of
                                None \<Rightarrow> None
                              | Some c \<Rightarrow> if c = [] then None else Some c),
                           ro_content = Some
                             (case rs_contentType r of None \<Rightarrow> ApplicationJson | Some ct \<Rightarrow> ct,
                              ''#/components/schemas/'' @ name @ '':response''
                                @ decimal statusCode)\<rparr>),
                       reg')
               else responsesLoop E name rest (rs, reg'))
      | None \<Rightarrow>
          responsesLoop E name rest
            (rs(statusCode \<mapsto>
                \<lparr>ro_description = rs_description r, ro_setCookie = None, ro_content = None\<rparr>),
             reg))"

text \<open>Lines 246 to 256: one response for each error kind, in the order of the list.\<close>

definition errorResponse :: "string \<Rightarrow> ResponseObject" where
  "errorResponse err =
     \<lparr>ro_description = err, ro_setCookie = None,
      ro_content = Some (ApplicationJson, ''#/components/schemas/'' @ err)\<rparr>"

fun errorsLoop ::
  "('z, 'd) env \<Rightarrow> string list \<Rightarrow> (nat \<rightharpoonup> ResponseObject) \<Rightarrow> (nat \<rightharpoonup> ResponseObject)" where
  "errorsLoop E [] rs = rs"
| "errorsLoop E (err # errors) rs =
     errorsLoop E errors (rs(errorStatus E err \<mapsto> errorResponse err))"

text \<open>
  Lines 124 to 256 of \<^verbatim>\<open>addDocRoute\<close>: the operation, the error list as the
  function leaves it (it pushes onto the caller's array), and the registry.
\<close>

definition compileOperation ::
  "('z, 'd) env \<Rightarrow> 'z AddDocRouteParams \<Rightarrow> registry \<Rightarrow> error + (Operation \<times> string list \<times> registry)" where
  "compileOperation E params reg =
     (let name = rd_name params;
          requestSchemas = rd_requestSchemas params;
          optionalParams =
            (case requestSchemas of
               None \<Rightarrow> []
             | Some rq \<Rightarrow> (case rq_optionalParams rq of None \<Rightarrow> [] | Some os \<Rightarrow> os));
          errors0 = (case rd_errors params of None \<Rightarrow> [] | Some es \<Rightarrow> es);
          op0 = \<lparr>op_summary = rd_summary params, op_parameters = [],
                 op_responses = Map.empty, op_tags = rd_tags params,
                 op_security = None, op_requestBody = None\<rparr>;
          (op1, errors1) = authStep E (rd_authenticatedUser params) (op0, errors0)
      in case paramStep E (name @ '':params'') (case requestSchemas of None \<Rightarrow> None | Some rq \<Rightarrow> rq_params rq)
                InPath optionalParams (op1, errors1, reg) of
           Inl e \<Rightarrow> Inl e
         | Inr c2 \<Rightarrow>
         (case paramStep E (name @ '':query'') (case requestSchemas of None \<Rightarrow> None | Some rq \<Rightarrow> rq_query rq)
                 InQuery optionalParams c2 of
            Inl e \<Rightarrow> Inl e
          | Inr c3 \<Rightarrow>
          (case paramStep E (name @ '':cookies'') (case requestSchemas of None \<Rightarrow> None | Some rq \<Rightarrow> rq_cookies rq)
                  InCookie optionalParams c3 of
             Inl e \<Rightarrow> Inl e
           | Inr c4 \<Rightarrow>
           (case bodyStep E name requestSchemas c4 of
              Inl e \<Rightarrow> Inl e
            | Inr (op5, errors5, reg5) \<Rightarrow>
            (case responsesLoop E name (rd_responses params) (op_responses op5, reg5) of
               Inl e \<Rightarrow> Inl e
             | Inr (rs6, reg6) \<Rightarrow>
                 Inr (op5\<lparr>op_responses := errorsLoop E errors5 rs6\<rparr>, errors5, reg6))))))"

text \<open>
  Lines 258 and 259:
  \<^verbatim>\<open>paths[openApiPath] ??= {}; paths[openApiPath][method] = op;\<close>
\<close>

definition registerOperation :: "string \<Rightarrow> MethodType \<Rightarrow> Operation \<Rightarrow> pathTable \<Rightarrow> pathTable" where
  "registerOperation openApiPath method op table =
     table(openApiPath \<mapsto>
       (case table openApiPath of None \<Rightarrow> Map.empty | Some ops \<Rightarrow> ops)(method \<mapsto> op))"

definition addDocRoute :: "('z, 'd) env \<Rightarrow> 'z AddDocRouteParams \<Rightarrow> state \<Rightarrow> error + state" where
  "addDocRoute E params st =
     (case compileOperation E params (schemas st) of
        Inl e \<Rightarrow> Inl e
      | Inr (op, errors, reg) \<Rightarrow>
          Inr (st\<lparr>schemas := reg,
                  paths := registerOperation (expressRouteToOpenApiRoute (rd_route params))
                             (rd_method params) op (paths st)\<rparr>))"

text \<open>The entry of the path table at a path and a method.\<close>

definition pathEntry :: "pathTable \<Rightarrow> string \<Rightarrow> MethodType \<Rightarrow> Operation option" where
  "pathEntry table p m = (case table p of None \<Rightarrow> None | Some ops \<Rightarrow> ops m)"

section \<open>Document assembler\<close>

text \<open>The schema built for one error kind (lines 266 to 276).\<close>

definition customErrorSchema :: "('z, 'd) env \<Rightarrow> string \<Rightarrow> 'z" where
  "customErrorSchema E name =
     zMeta E
       (zExtend E (errorSchema E)
          [(''name'', zMeta E (zString E)
                        [(''description'', JStr ''Error class name.''), (''example'', JStr name)])])
       [(''ref'', JStr name), (''description'', JStr (name @ '' response''))]"

text \<open>A loop of registrations without file fields, whose results are not read.\<close>

fun registerAll :: "('z, 'd) env \<Rightarrow> (string \<times> 'z) list \<Rightarrow> registry \<Rightarrow> error + registry" where
  "registerAll E [] reg = Inr reg"
| "registerAll E ((name, schema) # rest) reg =
     (case addZodSchema E name schema [] reg of
        Inl e \<Rightarrow> Inl e
      | Inr (added, reg') \<Rightarrow> registerAll E rest reg')"

definition addErrorComponents :: "('z, 'd) env \<Rightarrow> registry \<Rightarrow> error + registry" where
  "addErrorComponents E reg =
     registerAll E (map (\<lambda>name. (name, customErrorSchema E name)) (errorNames E)) reg"

text \<open>
  \<^verbatim>\<open>createOpenApiFile\<close>: \<open>writable\<close> tells whether \<^verbatim>\<open>fs.writeFileSync\<close> succeeds; it
  raises otherwise. The line printed on the console is left out.
\<close>

definition createOpenApiFile :: "('z, 'd) env \<Rightarrow> bool \<Rightarrow> 'd \<Rightarrow> state \<Rightarrow> error + state" where
  "createOpenApiFile E writable openApiObject st =
     (if writable then Inr (st\<lparr>outputFile := Some (stringify E openApiObject)\<rparr>)
      else Inl IOError)"

definition buildOpenApiDoc :: "('z, 'd) env \<Rightarrow> bool \<Rightarrow> state \<Rightarrow> error + ('d \<times> state)" where
  "buildOpenApiDoc E writable st =
     (case registerAll E (baseSchemas E) (schemas st) of
        Inl e \<Rightarrow> Inl e
      | Inr reg1 \<Rightarrow>
          (case addErrorComponents E reg1 of
             Inl e \<Rightarrow> Inl e
           | Inr reg2 \<Rightarrow>
               (let st' = st\<lparr>schemas := reg2\<rparr>;
                    openApiObject = createDocument E
                      \<lparr>di_openapi = ''3.0.0'',
                       di_info = [(''title'', ''My API''), (''version'', ''1.0.0'')],
                       di_paths = paths st',
                       di_schemas = schemas st',
                       di_securitySchemes =
                         [(''bearerAuth'',
                           [(''type'', ''http''), (''scheme'', ''bearer''), (''bearerFormat'', ''JWT'')])]\<rparr>
                in if NODE_ENV E = ''development''
                   then (case createOpenApiFile E writable openApiObject st' of
                           Inl e \<Rightarrow> Inl e
                         | Inr st'' \<Rightarrow> Inr (openApiObject, st''))
                   else Inr (openApiObject, st'))))"

section \<open>Notions used in the statements\<close>

text \<open>The error list a descriptor declares: \<^verbatim>\<open>let { errors = [] } = params\<close>.\<close>

definition declaredErrors :: "'z AddDocRouteParams \<Rightarrow> string list" where
  "declaredErrors params = (case rd_errors params of None \<Rightarrow> [] | Some es \<Rightarrow> es)"

text \<open>The last error kind of a list that has a given status, when there is one.\<close>

definition lastWithStatus :: "('z, 'd) env \<Rightarrow> nat \<Rightarrow> string list \<Rightarrow> string option" where
  "lastWithStatus E status errors =
     (case filter (\<lambda>e. errorStatus E e = status) errors of
        [] \<Rightarrow> None
      | es \<Rightarrow> Some (last es))"

section \<open>Concrete instances\<close>

text \<open>
  A stand-in for the schema library, to run the module on concrete inputs: a schema
  value carries the result of its conversion and, for an object schema, the entries of
  its shape. \<open>plain\<close> is a schema with no reference anywhere in it: its conversion
  has a components object with no entry, which is present and so truthy. \<open>named\<close>
  is a schema registered under a reference: it converts to that one component.
\<close>

datatype zod = Zod SchemaResult "(string \<times> zod) list option"

definition plain :: "json \<Rightarrow> (string \<times> zod) list option \<Rightarrow> zod" where
  "plain j shape = Zod \<lparr>sr_schema = j, sr_components = Some []\<rparr> shape"

definition named :: "string \<Rightarrow> json \<Rightarrow> (string \<times> zod) list option \<Rightarrow> zod" where
  "named r j shape =
     Zod \<lparr>sr_schema = JObj [(''$ref'', JStr (''#/components/schemas/'' @ r))],
          sr_components = Some [(r, j)]\<rparr> shape"

definition conversion :: "zod \<Rightarrow> SchemaResult" where
  "conversion z = (case z of Zod r shape \<Rightarrow> r)"

definition shapeOf :: "zod \<Rightarrow> (string \<times> zod) list option" where
  "shapeOf z = (case z of Zod r shape \<Rightarrow> shape)"

definition stringSchema :: json where
  "stringSchema = JObj [(''type'', JStr ''string'')]"

definition objectOf :: "(string \<times> json) list \<Rightarrow> json" where
  "objectOf props = JObj [(''type'', JStr ''object''), (''properties'', JObj props)]"

text \<open>
  The stand-in for the imports. Its table of statuses has two kinds at 401 and leaves
  two kinds without an entry.
\<close>

definition testEnv :: "(zod, DocumentInput) env" where
  "testEnv =
     \<lparr>createSchema = conversion,
      createDocument = (\<lambda>input. input),
      zodObjectShape = shapeOf,
      zString = plain stringSchema None,
      zMeta = (\<lambda>z m. case map_of m ''ref'' of
                         Some (JStr r) \<Rightarrow> named r (sr_schema (conversion z)) (shapeOf z)
                       | _ \<Rightarrow> z),
      zExtend = (\<lambda>z ext. z),
      stringify = (\<lambda>d. di_openapi d),
      errorNames = [''UnauthorizedError'', ''ValidationError'', ''TokenExpiredError'',
                    ''NotFoundError'', ''RateLimitError'', ''StorageError''],
      UNAUTHORIZED = ''UnauthorizedError'',
      VALIDATION_ERROR = ''ValidationError'',
      errorStatusMap = map_of [(''UnauthorizedError'', 401), (''ValidationError'', 400),
                               (''TokenExpiredError'', 401), (''NotFoundError'', 404)],
      errorSchema = plain (objectOf [(''message'', stringSchema)]) (Some []),
      baseSchemas = [(''Item'', named ''Item'' (objectOf [(''title'', stringSchema)]) None)],
      NODE_ENV = ''development''\<rparr>"

definition emptyState :: state where
  "emptyState = \<lparr>schemas = Map.empty, paths = Map.empty, outputFile = None\<rparr>"

definition noRequestSchemas :: "zod RequestSchemas" where
  "noRequestSchemas =
     \<lparr>rq_params = None, rq_query = None, rq_body = None, rq_contentType = None,
      rq_cookies = None, rq_optionalParams = None, rq_fileFields = None\<rparr>"

definition okResponse :: "zod ResponseDescriptor" where
  "okResponse =
     \<lparr>rs_description = ''OK'', rs_schema = None, rs_cookies = None, rs_contentType = None\<rparr>"

text \<open>
  \<^verbatim>\<open>GET /items/:id\<close> for a signed-in user, with a schema for the path parameter and
  one for the 200 response.
\<close>

definition getItemRoute :: "zod AddDocRouteParams" where
  "getItemRoute =
     \<lparr>rd_name = ''getItem'', rd_route = ''/items/:id'', rd_method = Get,
      rd_summary = ''Read one item'',
      rd_requestSchemas = Some (noRequestSchemas\<lparr>rq_params := Some
         (named ''ItemParams'' (objectOf [(''id'', stringSchema)])
            (Some [(''id'', plain stringSchema None)]))\<rparr>),
      rd_responses =
        [(200, \<lparr>rs_description = ''The item'',
                 rs_schema = Some (named ''Item'' (objectOf [(''title'', stringSchema)]) None),
                 rs_cookies = None, rs_contentType = None\<rparr>)],
      rd_errors = None,
      rd_authenticatedUser = AuthUser, rd_tags = Some [''items'']\<rparr>"

text \<open>A route for a signed-in user that declares two error kinds of status 401.\<close>

definition tokenRoute :: "zod AddDocRouteParams" where
  "tokenRoute =
     \<lparr>rd_name = ''refresh'', rd_route = ''/session/refresh'', rd_method = Post,
      rd_summary = ''Refresh the session'', rd_requestSchemas = None,
      rd_responses = [(200, okResponse)],
      rd_errors = Some [''UnauthorizedError'', ''TokenExpiredError''],
      rd_authenticatedUser = AuthUser, rd_tags = None\<rparr>"

text \<open>A route that declares two error kinds the table has no entry for.\<close>

definition limitsRoute :: "zod AddDocRouteParams" where
  "limitsRoute =
     \<lparr>rd_name = ''listFiles'', rd_route = ''/files'', rd_method = Get,
      rd_summary = ''List the stored files'', rd_requestSchemas = None,
      rd_responses = [(200, okResponse)],
      rd_errors = Some [''RateLimitError'', ''StorageError''],
      rd_authenticatedUser = AuthNone, rd_tags = None\<rparr>"

text \<open>A route for an administrator that declares a response at 401 itself.\<close>

definition profileRoute :: "zod AddDocRouteParams" where
  "profileRoute =
     \<lparr>rd_name = ''profile'', rd_route = ''/me'', rd_method = Get,
      rd_summary = ''Read the profile'', rd_requestSchemas = None,
      rd_responses =
        [(200, okResponse),
         (401, \<lparr>rs_description = ''Sign in first'', rs_schema = None, rs_cookies = None,
                 rs_contentType = None\<rparr>)],
      rd_errors = None,
      rd_authenticatedUser = AuthAdmin, rd_tags = None\<rparr>"

text \<open>
  An upload route. Its body is an object schema with one field, an enumeration that is
  registered under the reference \<^verbatim>\<open>Kind\<close>; the body itself has no reference. The
  conversion of the body then has one component, the enumeration, which has no
  \<^verbatim>\<open>properties\<close>.
\<close>

definition fileField :: FileField where
  "fileField =
     \<lparr>ff_name = ''file'', ff_required = Some True, ff_description = None, ff_type = None\<rparr>"

definition kindSchema :: json where
  "kindSchema = JObj [(''type'', JStr ''string''), (''enum'', JArr [JStr ''photo'', JStr ''scan''])]"

definition avatarBody :: zod where
  "avatarBody =
     Zod \<lparr>sr_schema = objectOf [(''kind'', JObj [(''$ref'', JStr ''#/components/schemas/Kind'')])],
          sr_components = Some [(''Kind'', kindSchema)]\<rparr>
         (Some [(''kind'', named ''Kind'' kindSchema None)])"

definition avatarRoute :: "zod AddDocRouteParams" where
  "avatarRoute =
     \<lparr>rd_name = ''avatar'', rd_route = ''/me/avatar'', rd_method = Post,
      rd_summary = ''Upload a picture'',
      rd_requestSchemas = Some (noRequestSchemas
         \<lparr>rq_body := Some avatarBody, rq_contentType := Some MultipartFormData,
          rq_fileFields := Some [fileField]\<rparr>),
      rd_responses = [(200, okResponse)],
      rd_errors = None,
      rd_authenticatedUser = AuthNone, rd_tags = None\<rparr>"

text \<open>Two object schemas with different fields, and one with the fields a and b.\<close>

definition draftSchema :: zod where
  "draftSchema = named ''Draft'' (objectOf [(''title'', stringSchema)]) None"

definition uploadSchema :: zod where
  "uploadSchema = named ''Upload'' (objectOf [(''caption'', stringSchema)]) None"

definition searchSchema :: zod where
  "searchSchema =
     named ''Search'' (objectOf [(''a'', stringSchema), (''b'', stringSchema)])
       (Some [(''a'', plain stringSchema None), (''b'', plain stringSchema None)])"

text \<open>A template with two placeholders, as segments.\<close>

definition itemPartSegments :: "segment list" where
  "itemPartSegments = [Lit ''/items/'', Param ''id'', Lit ''/parts/'', Param ''part_no'']"

section \<open>Evaluation rules\<close>

lemmas testEnv_simps = testEnv_def conversion_def shapeOf_def plain_def named_def
  stringSchema_def objectOf_def noRequestSchemas_def okResponse_def

lemmas instance_simps = testEnv_simps tokenRoute_def getItemRoute_def limitsRoute_def
  profileRoute_def fileField_def kindSchema_def avatarBody_def avatarRoute_def draftSchema_def
  uploadSchema_def searchSchema_def emptyState_def

lemmas compile_simps = compileOperation_def authStep_def paramStep_def bodyStep_def
  generateParamDocFromSchema_def addZodSchema_def firstComponent_def pushIfMissing_def
  errorStatus_def errorResponse_def bearerAuth_def

section \<open>Properties of the path translation\<close>

lemma not_word_chars:
  "\<not> isWordChar CHR '':''" "\<not> isWordChar CHR ''{''" "\<not> isWordChar CHR ''}''"
  by (simp_all add: isWordChar_def)

lemma translate_param:
  assumes "n \<noteq> []" and "list_all isWordChar n" and "t = [] \<or> \<not> isWordChar (hd t)"
  shows "expressRouteToOpenApiRoute (CHR '':'' # n @ t)
           = CHR ''{'' # n @ CHR ''}'' # expressRouteToOpenApiRoute t"
proof -
  have run: "takeWhile isWordChar (n @ t) = n"
    using assms(2,3) by (cases t) (auto simp: list_all_iff)
  have rest: "dropWhile isWordChar (n @ t) = t"
    using assms(2,3) by (cases t) (auto simp: list_all_iff)
  show ?thesis using assms(1) by (simp add: run rest)
qed

lemma translate_lit:
  "\<not> has_token s \<Longrightarrow>
   (s \<noteq> [] \<and> last s = CHR '':'' \<longrightarrow> t = [] \<or> \<not> isWordChar (hd t)) \<Longrightarrow>
   expressRouteToOpenApiRoute (s @ t) = s @ expressRouteToOpenApiRoute t"
proof (induction s rule: has_token.induct)
  case 1
  show ?case by simp
next
  case (2 c)
  then show ?case by (cases t) auto
next
  case (3 c d s)
  then show ?case by auto
qed

lemma express_after_lit:
  "well_formed segs \<Longrightarrow> \<not> starts_with_lit segs \<Longrightarrow>
   express_syntax segs = [] \<or> \<not> isWordChar (hd (express_syntax segs))"
  by (cases segs rule: starts_with_lit.cases) (auto simp: not_word_chars)

lemma express_after_param:
  assumes wf: "well_formed segs" and nw: "\<not> starts_with_word segs"
  shows "express_syntax segs = [] \<or> \<not> isWordChar (hd (express_syntax segs))"
proof (cases segs)
  case Nil
  then show ?thesis by simp
next
  case (Cons g rest)
  show ?thesis
  proof (cases g)
    case (Param n)
    with Cons show ?thesis by (simp add: not_word_chars)
  next
    case (Lit s)
    show ?thesis
    proof (cases s)
      case (Cons c s')
      with Lit \<open>segs = g # rest\<close> nw show ?thesis by simp
    next
      case Nil
      with Lit \<open>segs = g # rest\<close> wf
      have "well_formed rest" and "\<not> starts_with_lit rest" by simp_all
      from express_after_lit[OF this] Nil Lit \<open>segs = g # rest\<close> show ?thesis by simp
    qed
  qed
qed

lemma translate_segments:
  "well_formed segs \<Longrightarrow> expressRouteToOpenApiRoute (express_syntax segs) = openapi_syntax segs"
proof (induction segs rule: well_formed.induct)
  case 1
  show ?case by simp
next
  case (2 s segs)
  then show ?case using express_after_lit[of segs] by (simp add: translate_lit)
next
  case (3 n segs)
  then have "express_syntax segs = [] \<or> \<not> isWordChar (hd (express_syntax segs))"
    using express_after_param[of segs] by simp
  from translate_param[OF _ _ this, of n] 3 show ?case by simp
qed

lemma translate_fixed: "\<not> has_token p \<Longrightarrow> expressRouteToOpenApiRoute p = p"
proof (induction p rule: has_token.induct)
  case 1
  show ?case by simp
next
  case (2 c)
  show ?case by simp
next
  case (3 c d s)
  then show ?case by auto
qed

lemma has_token_word_run:
  "list_all isWordChar n \<Longrightarrow> has_token (n @ c # t) = has_token (c # t)"
proof (induction n)
  case Nil
  show ?case by simp
next
  case (Cons a n)
  then have "a \<noteq> CHR '':''" using not_word_chars by auto
  with Cons show ?case by (cases n) auto
qed

lemma translate_hd:
  "expressRouteToOpenApiRoute s = [] \<or> hd (expressRouteToOpenApiRoute s) = CHR ''{''
     \<or> (s \<noteq> [] \<and> hd (expressRouteToOpenApiRoute s) = hd s)"
  by (cases s) auto

lemma has_token_Cons:
  "has_token (c # t) = ((c = CHR '':'' \<and> t \<noteq> [] \<and> isWordChar (hd t)) \<or> has_token t)"
  by (cases t) auto

text \<open>The translation leaves no token behind, whatever its input.\<close>

lemma translate_no_token: "\<not> has_token (expressRouteToOpenApiRoute p)"
proof (induction p rule: expressRouteToOpenApiRoute.induct)
  case 1
  show ?case by simp
next
  case (2 c s)
  show ?case
  proof (cases "c = CHR '':'' \<and> takeWhile isWordChar s \<noteq> []")
    case True
    let ?n = "takeWhile isWordChar s"
    let ?r = "expressRouteToOpenApiRoute (dropWhile isWordChar s)"
    have n: "list_all isWordChar ?n"
      by (simp add: list_all_iff) (meson set_takeWhileD)
    have "has_token (CHR ''{'' # ?n @ CHR ''}'' # ?r) = has_token (?n @ CHR ''}'' # ?r)"
      by (simp add: has_token_Cons)
    also have "\<dots> = has_token (CHR ''}'' # ?r)"
      using n by (rule has_token_word_run)
    also have "\<dots> = has_token ?r"
      by (simp add: has_token_Cons)
    finally show ?thesis using True 2 by simp
  next
    case False
    then have rec: "\<not> has_token (expressRouteToOpenApiRoute s)" using 2 by simp
    have "\<not> (c = CHR '':'' \<and> expressRouteToOpenApiRoute s \<noteq> []
              \<and> isWordChar (hd (expressRouteToOpenApiRoute s)))"
    proof
      assume a: "c = CHR '':'' \<and> expressRouteToOpenApiRoute s \<noteq> []
                   \<and> isWordChar (hd (expressRouteToOpenApiRoute s))"
      with False have tw: "takeWhile isWordChar s = []" by simp
      from translate_hd[of s] a have "s \<noteq> [] \<and> hd (expressRouteToOpenApiRoute s) = hd s"
        using not_word_chars by auto
      with a have "s \<noteq> []" and "isWordChar (hd s)" by auto
      then have "takeWhile isWordChar s \<noteq> []" by (cases s) auto
      with tw show False by simp
    qed
    with rec False show ?thesis by (auto simp add: has_token_Cons)
  qed
qed

text \<open>
  Claim C8. A template made of literal text and placeholders \<open>:name\<close>, read as
  segments, is translated to the same segments with each placeholder written
  \<open>{name}\<close> and the literal text unchanged. An input with no colon-prefixed token is
  returned as it is, so translating it twice equals translating it once; translating
  twice equals translating once for every other input too.
\<close>

theorem expressRouteToOpenApiRoute_translation:
  "(well_formed segs \<longrightarrow>
      expressRouteToOpenApiRoute (express_syntax segs) = openapi_syntax segs)
   \<and> (\<not> has_token p \<longrightarrow>
        expressRouteToOpenApiRoute p = p
        \<and> expressRouteToOpenApiRoute (expressRouteToOpenApiRoute p) = expressRouteToOpenApiRoute p)
   \<and> expressRouteToOpenApiRoute (expressRouteToOpenApiRoute q) = expressRouteToOpenApiRoute q"
  using translate_segments[of segs] translate_fixed[of p]
    translate_fixed[OF translate_no_token, of q]
  by simp

theorem expressRouteToOpenApiRoute_translation_witness:
  "well_formed itemPartSegments
   \<and> express_syntax itemPartSegments = ''/items/:id/parts/:part_no''
   \<and> expressRouteToOpenApiRoute ''/items/:id/parts/:part_no'' = ''/items/{id}/parts/{part_no}''
   \<and> \<not> has_token ''/health''
   \<and> expressRouteToOpenApiRoute (expressRouteToOpenApiRoute ''/health'') = ''/health''"
proof -
  have wf: "well_formed itemPartSegments"
    by (simp add: itemPartSegments_def isWordChar_def)
  have nt: "\<not> has_token ''/health''"
    by (simp add: isWordChar_def)
  from expressRouteToOpenApiRoute_translation[of itemPartSegments "''/health''" "[]"] wf nt
  show ?thesis by (simp add: itemPartSegments_def)
qed

section \<open>Properties of the schema registry\<close>

text \<open>A registration without file fields never raises.\<close>

lemma addZodSchema_plain:
  "addZodSchema E name schema [] reg =
     Inr (case sr_components (createSchema E schema) of
            None \<Rightarrow> (False, reg)
          | Some cs \<Rightarrow> (True, reg(name \<mapsto> firstComponent cs)))"
  by (simp add: addZodSchema_def split: option.splits)

lemma setSchemaProperty_Inr:
  "setSchemaProperty obj k v = Inr obj' \<Longrightarrow>
     \<exists>members props. obj = JObj members \<and> map_of members ''properties'' = Some (JObj props)
        \<and> obj' = JObj (AList.update ''properties'' (JObj (AList.update k v props)) members)"
  by (auto simp: setSchemaProperty_def split: json.splits option.splits)

text \<open>On an object with a field map the injection writes every file field into that map.\<close>

lemma injectFileFields_object:
  "map_of members ''properties'' = Some (JObj props) \<Longrightarrow>
   injectFileFields (JObj members) ff =
     Inr (JObj (AList.update ''properties''
                  (JObj (fold (\<lambda>f. AList.update (ff_name f) (fileFieldSchema f)) ff props)) members))"
proof (induction ff arbitrary: members props)
  case Nil
  then show ?case by (simp add: update_triv)
next
  case (Cons f fs)
  let ?props = "AList.update (ff_name f) (fileFieldSchema f) props"
  let ?members = "AList.update ''properties'' (JObj ?props) members"
  have step: "setSchemaProperty (JObj members) (ff_name f) (fileFieldSchema f) = Inr (JObj ?members)"
    using Cons.prems by (simp add: setSchemaProperty_def)
  have "map_of ?members ''properties'' = Some (JObj ?props)"
    by (simp add: update_conv')
  from Cons.IH[OF this] step show ?case by (simp add: update_last)
qed

lemma injectFileFields_Inr:
  assumes "injectFileFields obj ff = Inr obj'" and "ff \<noteq> []"
  shows "\<exists>members props. obj = JObj members \<and> map_of members ''properties'' = Some (JObj props)
     \<and> obj' = JObj (AList.update ''properties''
                  (JObj (fold (\<lambda>f. AList.update (ff_name f) (fileFieldSchema f)) ff props)) members)"
proof -
  from assms(2) obtain f fs where ff: "ff = f # fs" by (cases ff) auto
  with assms(1) obtain o1 where "setSchemaProperty obj (ff_name f) (fileFieldSchema f) = Inr o1"
    by (auto split: sum.splits)
  from setSchemaProperty_Inr[OF this] obtain members props where
    m: "obj = JObj members" "map_of members ''properties'' = Some (JObj props)" by blast
  from injectFileFields_object[OF m(2), of ff] assms(1) m show ?thesis by auto
qed

text \<open>
  The guard of \<open>addZodSchema\<close> is the truthiness of the \<^verbatim>\<open>components\<close> field.
  When the field is absent the function returns false and leaves the registry as it
  was; when it is present with no entry the guard lets it through, the first component
  is \<^verbatim>\<open>undefined\<close>, and that is stored under the name.
\<close>

lemma addZodSchema_absent_components:
  "sr_components (createSchema E schema) = None \<Longrightarrow>
   addZodSchema E name schema fileFields reg = Inr (False, reg)"
  by (simp add: addZodSchema_def)

lemma addZodSchema_empty_components:
  "sr_components (createSchema E schema) = Some [] \<Longrightarrow>
   addZodSchema E name schema [] reg = Inr (True, reg(name \<mapsto> JUndefined))"
  by (simp add: addZodSchema_def firstComponent_def)

lemma addZodSchema_empty_components_raises:
  "sr_components (createSchema E schema) = Some [] \<Longrightarrow>
   addZodSchema E name schema (f # fs) reg = Inl TypeError"
  by (simp add: addZodSchema_def firstComponent_def setSchemaProperty_def)

text \<open>
  Claim C4 at a schema with no reference, whose conversion yields no component: the
  components object is present and empty. Registered without file fields, it makes
  \<open>addZodSchema\<close> return true and store \<^verbatim>\<open>undefined\<close> under the name, so the
  registry is not the one it was given; registered with a file field, it makes
  \<open>addZodSchema\<close> raise. The claim asks for false and an unchanged registry.
\<close>

theorem addZodSchema_stores_undefined:
  "sr_components (createSchema testEnv (plain stringSchema None)) = Some []
   \<and> addZodSchema testEnv ''note:body'' (plain stringSchema None) [] Map.empty
       = Inr (True, [''note:body'' \<mapsto> JUndefined])
   \<and> [''note:body'' \<mapsto> JUndefined] \<noteq> (Map.empty :: registry)
   \<and> addZodSchema testEnv ''note:body'' (plain stringSchema None) [fileField] Map.empty
       = Inl TypeError"
proof -
  have h: "sr_components (createSchema testEnv (plain stringSchema None)) = Some []"
    by (simp add: instance_simps)
  have d: "[''note:body'' \<mapsto> JUndefined] \<noteq> (Map.empty :: registry)"
    by simp
  from h d addZodSchema_empty_components[OF h, of "''note:body''" Map.empty]
    addZodSchema_empty_components_raises[OF h, of "''note:body''" fileField "[]" Map.empty]
  show ?thesis by simp
qed

text \<open>
  Claim C3, as the code has it. After two successful registrations under one name the
  registry is the one the second registration alone gives: the entry is the first
  component of the second schema's own conversion, and the first registration leaves
  no trace. This is so with file fields too: they are written into the field map of
  that fresh component (each one under its name, replacing a field of that name),
  not into the entry the registry held.
\<close>

theorem addZodSchema_overwrites:
  assumes "addZodSchema E name schema1 fileFields1 reg = Inr (True, reg1)"
    and "addZodSchema E name schema2 fileFields2 reg1 = Inr (True, reg2)"
  shows "\<exists>cs objectSchema.
           sr_components (createSchema E schema2) = Some cs
         \<and> injectFileFields (firstComponent cs) fileFields2 = Inr objectSchema
         \<and> reg2 = reg(name \<mapsto> objectSchema)
         \<and> addZodSchema E name schema2 fileFields2 reg = Inr (True, reg2)
         \<and> (fileFields2 = [] \<and> objectSchema = firstComponent cs
            \<or> (\<exists>members props. firstComponent cs = JObj members
                  \<and> map_of members ''properties'' = Some (JObj props)
                  \<and> objectSchema = JObj (AList.update ''properties''
                       (JObj (fold (\<lambda>f. AList.update (ff_name f) (fileFieldSchema f))
                                fileFields2 props))
                       members)))"
proof -
  from assms(1) obtain o1 where r1: "reg1 = reg(name \<mapsto> o1)"
    by (auto simp: addZodSchema_def split: option.splits sum.splits)
  from assms(2) obtain cs objectSchema where
    cs: "sr_components (createSchema E schema2) = Some cs"
    and inj: "injectFileFields (firstComponent cs) fileFields2 = Inr objectSchema"
    and r2: "reg2 = reg1(name \<mapsto> objectSchema)"
    by (auto simp: addZodSchema_def split: option.splits sum.splits)
  have over: "reg2 = reg(name \<mapsto> objectSchema)" using r1 r2 by simp
  have alone: "addZodSchema E name schema2 fileFields2 reg = Inr (True, reg2)"
    using cs inj over by (simp add: addZodSchema_def)
  have shape: "fileFields2 = [] \<and> objectSchema = firstComponent cs
            \<or> (\<exists>members props. firstComponent cs = JObj members
                  \<and> map_of members ''properties'' = Some (JObj props)
                  \<and> objectSchema = JObj (AList.update ''properties''
                       (JObj (fold (\<lambda>f. AList.update (ff_name f) (fileFieldSchema f))
                                fileFields2 props))
                       members))"
  proof (cases "fileFields2 = []")
    case True
    with inj show ?thesis by simp
  next
    case False
    from injectFileFields_Inr[OF inj False] show ?thesis by blast
  qed
  from cs inj over alone shape show ?thesis by blast
qed

theorem addZodSchema_overwrites_witness:
  "\<exists>reg1 reg2.
     addZodSchema testEnv ''upload:body'' draftSchema [] Map.empty = Inr (True, reg1)
     \<and> addZodSchema testEnv ''upload:body'' uploadSchema [fileField] reg1 = Inr (True, reg2)
     \<and> addZodSchema testEnv ''upload:body'' uploadSchema [fileField] Map.empty = Inr (True, reg2)"
proof -
  have "\<exists>reg1. addZodSchema testEnv ''upload:body'' draftSchema [] Map.empty = Inr (True, reg1)"
    by (simp add: instance_simps addZodSchema_def)
  then obtain reg1 where
    r1: "addZodSchema testEnv ''upload:body'' draftSchema [] Map.empty = Inr (True, reg1)"
    by blast
  have "\<exists>reg2. addZodSchema testEnv ''upload:body'' uploadSchema [fileField] reg1 = Inr (True, reg2)"
    by (simp add: instance_simps addZodSchema_def firstComponent_def setSchemaProperty_def)
  then obtain reg2 where
    r2: "addZodSchema testEnv ''upload:body'' uploadSchema [fileField] reg1 = Inr (True, reg2)"
    by blast
  from addZodSchema_overwrites[OF r1 r2] r1 r2 show ?thesis by blast
qed

text \<open>
  Claim C3 as it is stated fails on its exception. The registry holds an entry with the
  field \<open>title\<close>; a registration under the same name with the file field \<open>file\<close>
  and a schema with the field \<open>caption\<close> succeeds. Merging the file field into the
  entry the registry held would give the fields \<open>title\<close> and \<open>file\<close>; the
  registry holds \<open>caption\<close> and \<open>file\<close>.
\<close>

theorem addZodSchema_injection_counterexample:
  "(case addZodSchema testEnv ''upload:body'' draftSchema [] Map.empty of
      Inl e \<Rightarrow> False
    | Inr (added1, reg1) \<Rightarrow>
        (case addZodSchema testEnv ''upload:body'' uploadSchema [fileField] reg1 of
           Inl e \<Rightarrow> False
         | Inr (added2, reg2) \<Rightarrow>
             added1 \<and> added2
             \<and> reg1 ''upload:body'' = Some (objectOf [(''title'', stringSchema)])
             \<and> injectFileFields (objectOf [(''title'', stringSchema)]) [fileField]
                 = Inr (objectOf [(''title'', stringSchema), (''file'', fileFieldSchema fileField)])
             \<and> reg2 ''upload:body''
                 = Some (objectOf [(''caption'', stringSchema), (''file'', fileFieldSchema fileField)])
             \<and> reg2 ''upload:body''
                 \<noteq> Some (objectOf [(''title'', stringSchema), (''file'', fileFieldSchema fileField)])))"
  by (simp add: instance_simps addZodSchema_def firstComponent_def setSchemaProperty_def)

section \<open>Properties of the parameter extraction\<close>

text \<open>
  Claim C5. For a schema whose shape has exactly the two fields \<open>a\<close> and \<open>b\<close>, in
  either order, a non-empty name and a registration that succeeds, the extraction for
  the location query with the optional names \<open>[b]\<close> returns two descriptors and no
  other: \<open>a\<close> required, \<open>b\<close> not required, both in the query, each with the
  conversion of its field.
\<close>

theorem generateParamDocFromSchema_two_fields:
  assumes "name \<noteq> []" and "a \<noteq> b"
    and "zodObjectShape E s = Some [(a, va), (b, vb)]
         \<or> zodObjectShape E s = Some [(b, vb), (a, va)]"
    and "addZodSchema E name s [] reg = Inr (True, reg')"
  shows "\<exists>ps. generateParamDocFromSchema E name (Some s) InQuery [b] reg = Inr (ps, reg')
           \<and> length ps = 2
           \<and> set ps = {\<lparr>p_name = a, p_in = InQuery, p_required = True,
                          p_schema = createSchema E va\<rparr>,
                        \<lparr>p_name = b, p_in = InQuery, p_required = False,
                          p_schema = createSchema E vb\<rparr>}"
  using assms by (auto simp: generateParamDocFromSchema_def)

theorem generateParamDocFromSchema_two_fields_witness:
  "\<exists>ps reg.
     generateParamDocFromSchema testEnv ''search:query'' (Some searchSchema) InQuery [''b'']
         Map.empty = Inr (ps, reg)
     \<and> length ps = 2
     \<and> set ps = {\<lparr>p_name = ''a'', p_in = InQuery, p_required = True,
                    p_schema = \<lparr>sr_schema = stringSchema, sr_components = Some []\<rparr>\<rparr>,
                  \<lparr>p_name = ''b'', p_in = InQuery, p_required = False,
                    p_schema = \<lparr>sr_schema = stringSchema, sr_components = Some []\<rparr>\<rparr>}"
proof -
  have n: "''search:query'' \<noteq> []" and d: "''a'' \<noteq> ''b''" by simp_all
  have sh: "zodObjectShape testEnv searchSchema
              = Some [(''a'', plain stringSchema None), (''b'', plain stringSchema None)]
            \<or> zodObjectShape testEnv searchSchema
              = Some [(''b'', plain stringSchema None), (''a'', plain stringSchema None)]"
    by (simp add: testEnv_def shapeOf_def searchSchema_def named_def)
  have "\<exists>reg. addZodSchema testEnv ''search:query'' searchSchema [] Map.empty = Inr (True, reg)"
    by (simp add: testEnv_def conversion_def searchSchema_def named_def addZodSchema_def)
  then obtain reg where
    r: "addZodSchema testEnv ''search:query'' searchSchema [] Map.empty = Inr (True, reg)"
    by blast
  have cv: "createSchema testEnv (plain stringSchema None)
              = \<lparr>sr_schema = stringSchema, sr_components = Some []\<rparr>"
    by (simp add: testEnv_def conversion_def plain_def)
  from generateParamDocFromSchema_two_fields[OF n d sh r] cv show ?thesis by auto
qed

section \<open>Properties of the operation compiler\<close>

lemma errorsLoop_entry:
  "errorsLoop E errors rs status =
     (case lastWithStatus E status errors of
        None \<Rightarrow> rs status
      | Some e \<Rightarrow> Some (errorResponse e))"
proof (induction errors arbitrary: rs)
  case Nil
  show ?case by (simp add: lastWithStatus_def)
next
  case (Cons err errors)
  show ?case by (simp add: Cons.IH lastWithStatus_def split: list.splits)
qed

lemma lastWithStatus_mem:
  assumes "e \<in> set errors"
  shows "\<exists>e'. lastWithStatus E (errorStatus E e) errors = Some e'
           \<and> e' \<in> set errors \<and> errorStatus E e' = errorStatus E e"
proof -
  let ?f = "filter (\<lambda>x. errorStatus E x = errorStatus E e) errors"
  from assms have ne: "?f \<noteq> []" by (auto simp: filter_empty_conv)
  then have "last ?f \<in> set ?f" by (rule last_in_set)
  then have "last ?f \<in> set errors \<and> errorStatus E (last ?f) = errorStatus E e" by auto
  with ne show ?thesis by (auto simp: lastWithStatus_def split: list.splits)
qed

lemma pushIfMissing_twice: "pushIfMissing e (pushIfMissing e errors) = pushIfMissing e errors"
  by (simp add: pushIfMissing_def)

lemma set_pushIfMissing: "set (pushIfMissing e errors) = insert e (set errors)"
  by (auto simp: pushIfMissing_def)

lemma errorResponse_inj: "(errorResponse a = errorResponse b) = (a = b)"
  by (auto simp: errorResponse_def)

lemma paramStep_result:
  "paramStep E name schema loc opt (op, errors, reg) = Inr (op', errors', reg') \<Longrightarrow>
     op_security op' = op_security op \<and> op_responses op' = op_responses op
     \<and> (errors' = errors \<or> errors' = pushIfMissing (VALIDATION_ERROR E) errors)"
  by (auto simp: paramStep_def split: sum.splits if_splits)

lemma bodyStep_result:
  "bodyStep E name rq (op, errors, reg) = Inr (op', errors', reg') \<Longrightarrow>
     op_security op' = op_security op \<and> op_responses op' = op_responses op
     \<and> (errors' = errors \<or> errors' = pushIfMissing (VALIDATION_ERROR E) errors)"
  by (auto simp: bodyStep_def split: sum.splits if_splits option.splits)

text \<open>
  What a compilation that returns has done: the error responses are written over the
  declared ones, the security requirement follows the authentication tag, and the
  error list is the declared one with the two kinds pushed when they were missing.
\<close>

lemma compileOperation_structure:
  assumes "compileOperation E params reg = Inr (op, errors, reg')"
  shows "(\<exists>rs reg5. responsesLoop E (rd_name params) (rd_responses params) (Map.empty, reg5)
                       = Inr (rs, reg')
            \<and> op_responses op = errorsLoop E errors rs)
     \<and> op_security op
          = (if rd_authenticatedUser params \<noteq> AuthNone then Some [bearerAuth] else None)
     \<and> (let errors1 = (if rd_authenticatedUser params \<noteq> AuthNone
                        then pushIfMissing (UNAUTHORIZED E) (declaredErrors params)
                        else declaredErrors params)
        in errors = errors1 \<or> errors = pushIfMissing (VALIDATION_ERROR E) errors1)"
proof -
  let ?op0 = "\<lparr>op_summary = rd_summary params, op_parameters = [],
                 op_responses = Map.empty, op_tags = rd_tags params,
                 op_security = None, op_requestBody = None\<rparr>"
  let ?opt = "(case rd_requestSchemas params of
               None \<Rightarrow> []
             | Some rq \<Rightarrow> (case rq_optionalParams rq of None \<Rightarrow> [] | Some os \<Rightarrow> os))"
  obtain op1 errors1 where
    a: "authStep E (rd_authenticatedUser params) (?op0, declaredErrors params) = (op1, errors1)"
    by fastforce
  then have a1: "op_security op1
                   = (if rd_authenticatedUser params \<noteq> AuthNone then Some [bearerAuth] else None)"
    and a2: "errors1 = (if rd_authenticatedUser params \<noteq> AuthNone
                        then pushIfMissing (UNAUTHORIZED E) (declaredErrors params)
                        else declaredErrors params)"
    and a3: "op_responses op1 = Map.empty"
    by (auto simp: authStep_def split: if_splits)
  from assms a obtain op2 e2 r2 op3 e3 r3 op4 e4 r4 op5 r5 rs6 where
    s2: "paramStep E (rd_name params @ '':params'')
           (case rd_requestSchemas params of None \<Rightarrow> None | Some rq \<Rightarrow> rq_params rq)
           InPath ?opt (op1, errors1, reg) = Inr (op2, e2, r2)"
    and s3: "paramStep E (rd_name params @ '':query'')
           (case rd_requestSchemas params of None \<Rightarrow> None | Some rq \<Rightarrow> rq_query rq)
           InQuery ?opt (op2, e2, r2) = Inr (op3, e3, r3)"
    and s4: "paramStep E (rd_name params @ '':cookies'')
           (case rd_requestSchemas params of None \<Rightarrow> None | Some rq \<Rightarrow> rq_cookies rq)
           InCookie ?opt (op3, e3, r3) = Inr (op4, e4, r4)"
    and s5: "bodyStep E (rd_name params) (rd_requestSchemas params) (op4, e4, r4)
               = Inr (op5, errors, r5)"
    and s6: "responsesLoop E (rd_name params) (rd_responses params) (op_responses op5, r5)
               = Inr (rs6, reg')"
    and s7: "op = op5\<lparr>op_responses := errorsLoop E errors rs6\<rparr>"
    by (auto simp: compileOperation_def declaredErrors_def Let_def split: sum.splits prod.splits)
  note p2 = paramStep_result[OF s2] and p3 = paramStep_result[OF s3]
    and p4 = paramStep_result[OF s4] and p5 = bodyStep_result[OF s5]
  have sec: "op_security op = op_security op1" using p2 p3 p4 p5 s7 by simp
  have rsp: "op_responses op5 = Map.empty" using p2 p3 p4 p5 a3 by simp
  have err: "errors = errors1 \<or> errors = pushIfMissing (VALIDATION_ERROR E) errors1"
    using p2 p3 p4 p5 by (auto simp: pushIfMissing_twice)
  from s6 rsp s7
  have "\<exists>rs reg5. responsesLoop E (rd_name params) (rd_responses params) (Map.empty, reg5)
                     = Inr (rs, reg')
            \<and> op_responses op = errorsLoop E errors rs" by auto
  with sec a1 a2 err show ?thesis by (simp add: Let_def)
qed

lemma entry_after_errors:
  assumes "compileOperation E params reg = Inr (op, errors, reg')" and "err \<in> set errors"
  shows "\<exists>e \<in> set errors. lastWithStatus E (errorStatus E err) errors = Some e
           \<and> errorStatus E e = errorStatus E err
           \<and> op_responses op (errorStatus E err) = Some (errorResponse e)"
proof -
  from compileOperation_structure[OF assms(1)] obtain rs where
    rs: "op_responses op = errorsLoop E errors rs" by auto
  from lastWithStatus_mem[OF assms(2), of E] obtain e where
    e: "lastWithStatus E (errorStatus E err) errors = Some e" "e \<in> set errors"
       "errorStatus E e = errorStatus E err" by auto
  with rs show ?thesis by (auto simp: errorsLoop_entry)
qed

text \<open>The operation a registration stores is the one the compilation returns.\<close>

lemma addDocRoute_compiled:
  assumes "addDocRoute E params st = Inr st'"
  shows "\<exists>op errors reg. compileOperation E params (schemas st) = Inr (op, errors, reg)
     \<and> schemas st' = reg
     \<and> pathEntry (paths st') (expressRouteToOpenApiRoute (rd_route params)) (rd_method params)
         = Some op"
  using assms
  by (auto simp: addDocRoute_def pathEntry_def registerOperation_def split: sum.splits)

text \<open>
  Claim C1, as the code has it. When the authentication tag is not \<open>none\<close> and the
  registration returns, the stored operation carries the bearer-token security
  requirement; the error list is the declared one with UNAUTHORIZED pushed when it was
  missing (and VALIDATION_ERROR after it when a parameter or body was documented); the
  response map has an error response at the status of UNAUTHORIZED. That response is
  the one of the last kind of the list with this status: it references the
  UNAUTHORIZED schema exactly when no kind after UNAUTHORIZED in the list has the
  same status.
\<close>

theorem addDocRoute_authenticated:
  assumes "addDocRoute E params st = Inr st'"
    and "rd_authenticatedUser params \<noteq> AuthNone"
  shows "\<exists>op errors reg.
       compileOperation E params (schemas st) = Inr (op, errors, reg)
     \<and> pathEntry (paths st') (expressRouteToOpenApiRoute (rd_route params)) (rd_method params)
         = Some op
     \<and> op_security op = Some [bearerAuth]
     \<and> (errors = pushIfMissing (UNAUTHORIZED E) (declaredErrors params)
        \<or> errors = pushIfMissing (VALIDATION_ERROR E)
                      (pushIfMissing (UNAUTHORIZED E) (declaredErrors params)))
     \<and> UNAUTHORIZED E \<in> set errors
     \<and> (\<exists>e \<in> set errors.
           lastWithStatus E (errorStatus E (UNAUTHORIZED E)) errors = Some e
           \<and> errorStatus E e = errorStatus E (UNAUTHORIZED E)
           \<and> op_responses op (errorStatus E (UNAUTHORIZED E)) = Some (errorResponse e))
     \<and> ((op_responses op (errorStatus E (UNAUTHORIZED E))
            = Some (errorResponse (UNAUTHORIZED E)))
          = (lastWithStatus E (errorStatus E (UNAUTHORIZED E)) errors = Some (UNAUTHORIZED E)))"
proof -
  from addDocRoute_compiled[OF assms(1)] obtain op errors reg where
    c: "compileOperation E params (schemas st) = Inr (op, errors, reg)"
    and p: "pathEntry (paths st') (expressRouteToOpenApiRoute (rd_route params))
              (rd_method params) = Some op" by blast
  from compileOperation_structure[OF c] assms(2)
  have sec: "op_security op = Some [bearerAuth]"
    and err: "errors = pushIfMissing (UNAUTHORIZED E) (declaredErrors params)
        \<or> errors = pushIfMissing (VALIDATION_ERROR E)
                      (pushIfMissing (UNAUTHORIZED E) (declaredErrors params))"
    by (simp_all add: Let_def)
  from err have mem: "UNAUTHORIZED E \<in> set errors" by (auto simp: set_pushIfMissing)
  from entry_after_errors[OF c mem] obtain e where
    e: "e \<in> set errors" "lastWithStatus E (errorStatus E (UNAUTHORIZED E)) errors = Some e"
       "errorStatus E e = errorStatus E (UNAUTHORIZED E)"
       "op_responses op (errorStatus E (UNAUTHORIZED E)) = Some (errorResponse e)" by auto
  have ex: "\<exists>e \<in> set errors.
           lastWithStatus E (errorStatus E (UNAUTHORIZED E)) errors = Some e
           \<and> errorStatus E e = errorStatus E (UNAUTHORIZED E)
           \<and> op_responses op (errorStatus E (UNAUTHORIZED E)) = Some (errorResponse e)"
    by (rule bexI[OF _ e(1)]) (intro conjI e(2) e(3) e(4))
  have iff: "(op_responses op (errorStatus E (UNAUTHORIZED E))
                = Some (errorResponse (UNAUTHORIZED E)))
          = (lastWithStatus E (errorStatus E (UNAUTHORIZED E)) errors = Some (UNAUTHORIZED E))"
    using e(2) e(4) by (simp add: errorResponse_inj)
  show ?thesis
    by (intro exI conjI) (rule c, rule p, rule sec, rule err, rule mem, rule ex, rule iff)
qed

theorem addDocRoute_authenticated_witness:
  "\<exists>st' op.
     addDocRoute testEnv getItemRoute emptyState = Inr st'
     \<and> rd_authenticatedUser getItemRoute \<noteq> AuthNone
     \<and> pathEntry (paths st') ''/items/{id}'' Get = Some op
     \<and> op_security op = Some [bearerAuth]
     \<and> errorStatus testEnv (UNAUTHORIZED testEnv) = 401
     \<and> op_responses op 401 = Some (errorResponse (UNAUTHORIZED testEnv))"
proof -
  have ev: "\<exists>op reg. compileOperation testEnv getItemRoute (schemas emptyState)
                = Inr (op, [''UnauthorizedError'', ''ValidationError''], reg)"
    by (simp add: instance_simps compile_simps)
  then have "\<exists>st'. addDocRoute testEnv getItemRoute emptyState = Inr st'"
    by (auto simp: addDocRoute_def)
  then obtain st' where r: "addDocRoute testEnv getItemRoute emptyState = Inr st'" by blast
  have a: "rd_authenticatedUser getItemRoute \<noteq> AuthNone" by (simp add: getItemRoute_def)
  have t: "expressRouteToOpenApiRoute (rd_route getItemRoute) = ''/items/{id}''"
    "rd_method getItemRoute = Get"
    by (simp_all add: getItemRoute_def isWordChar_def)
  have l: "lastWithStatus testEnv (errorStatus testEnv (UNAUTHORIZED testEnv))
             [''UnauthorizedError'', ''ValidationError''] = Some (UNAUTHORIZED testEnv)"
    by (simp add: lastWithStatus_def errorStatus_def testEnv_def)
  have s: "errorStatus testEnv (UNAUTHORIZED testEnv) = 401"
    by (simp add: errorStatus_def testEnv_def)
  from addDocRoute_authenticated[OF r a] ev obtain op where
    "pathEntry (paths st') (expressRouteToOpenApiRoute (rd_route getItemRoute))
       (rd_method getItemRoute) = Some op"
    "op_security op = Some [bearerAuth]"
    "(op_responses op (errorStatus testEnv (UNAUTHORIZED testEnv))
        = Some (errorResponse (UNAUTHORIZED testEnv)))
     = (lastWithStatus testEnv (errorStatus testEnv (UNAUTHORIZED testEnv))
          [''UnauthorizedError'', ''ValidationError''] = Some (UNAUTHORIZED testEnv))"
    by auto
  with l s t have f: "pathEntry (paths st') ''/items/{id}'' Get = Some op"
    "op_security op = Some [bearerAuth]"
    "op_responses op 401 = Some (errorResponse (UNAUTHORIZED testEnv))" by simp_all
  show ?thesis
    apply (rule exI[of _ st'])
    apply (rule exI[of _ op])
    apply (simp add: r a s f)
    done
qed

text \<open>
  Claim C1 as it is stated fails where a later kind shares the status: the route
  declares UNAUTHORIZED and then a second kind of status 401, and the entry at 401
  references the second kind's schema.
\<close>

theorem addDocRoute_authenticated_counterexample:
  "(case addDocRoute testEnv tokenRoute emptyState of
      Inl e \<Rightarrow> False
    | Inr st' \<Rightarrow>
        (case pathEntry (paths st') ''/session/refresh'' Post of
           None \<Rightarrow> False
         | Some op \<Rightarrow>
             rd_authenticatedUser tokenRoute \<noteq> AuthNone
             \<and> errorStatus testEnv (UNAUTHORIZED testEnv) = 401
             \<and> op_responses op 401 = Some (errorResponse ''TokenExpiredError'')
             \<and> op_responses op 401 \<noteq> Some (errorResponse (UNAUTHORIZED testEnv))))"
  by (simp add: addDocRoute_def pathEntry_def registerOperation_def instance_simps compile_simps)

text \<open>
  Claim C6, as the code has it. For every error kind of the list a registration ends
  with, the status is the table's entry or 500 without one, and the stored operation
  has an error response at that status, which references a schema by the kind's name.
  The kind it references is the last one of the list with this status: it is the
  kind itself exactly when no later kind of the list has the same status.
\<close>

theorem addDocRoute_error_responses:
  assumes "addDocRoute E params st = Inr st'"
  shows "\<exists>op errors reg.
       compileOperation E params (schemas st) = Inr (op, errors, reg)
     \<and> pathEntry (paths st') (expressRouteToOpenApiRoute (rd_route params)) (rd_method params)
         = Some op
     \<and> (\<forall>err \<in> set errors.
          errorStatus E err
            = (case errorStatusMap E err of None \<Rightarrow> 500 | Some status \<Rightarrow> status)
          \<and> (\<exists>e \<in> set errors.
                lastWithStatus E (errorStatus E err) errors = Some e
                \<and> errorStatus E e = errorStatus E err
                \<and> op_responses op (errorStatus E err) = Some (errorResponse e)
                \<and> ro_content (errorResponse e)
                    = Some (ApplicationJson, ''#/components/schemas/'' @ e))
          \<and> ((op_responses op (errorStatus E err) = Some (errorResponse err))
               = (lastWithStatus E (errorStatus E err) errors = Some err)))"
proof -
  from addDocRoute_compiled[OF assms(1)] obtain op errors reg where
    c: "compileOperation E params (schemas st) = Inr (op, errors, reg)"
    and p: "pathEntry (paths st') (expressRouteToOpenApiRoute (rd_route params))
              (rd_method params) = Some op" by blast
  have all: "\<forall>err \<in> set errors.
          errorStatus E err
            = (case errorStatusMap E err of None \<Rightarrow> 500 | Some status \<Rightarrow> status)
          \<and> (\<exists>e \<in> set errors.
                lastWithStatus E (errorStatus E err) errors = Some e
                \<and> errorStatus E e = errorStatus E err
                \<and> op_responses op (errorStatus E err) = Some (errorResponse e)
                \<and> ro_content (errorResponse e)
                    = Some (ApplicationJson, ''#/components/schemas/'' @ e))
          \<and> ((op_responses op (errorStatus E err) = Some (errorResponse err))
               = (lastWithStatus E (errorStatus E err) errors = Some err))"
  proof
    fix err assume m: "err \<in> set errors"
    have st: "errorStatus E err
                = (case errorStatusMap E err of None \<Rightarrow> 500 | Some status \<Rightarrow> status)"
      by (simp add: errorStatus_def)
    from entry_after_errors[OF c m] obtain e where
      e: "e \<in> set errors" "lastWithStatus E (errorStatus E err) errors = Some e"
         "errorStatus E e = errorStatus E err"
         "op_responses op (errorStatus E err) = Some (errorResponse e)" by auto
    have ref: "ro_content (errorResponse e)
                 = Some (ApplicationJson, ''#/components/schemas/'' @ e)"
      by (simp add: errorResponse_def)
    have iff: "(op_responses op (errorStatus E err) = Some (errorResponse err))
            = (lastWithStatus E (errorStatus E err) errors = Some err)"
      using e(2) e(4) by (simp add: errorResponse_inj)
    have ex: "\<exists>e \<in> set errors.
                lastWithStatus E (errorStatus E err) errors = Some e
                \<and> errorStatus E e = errorStatus E err
                \<and> op_responses op (errorStatus E err) = Some (errorResponse e)
                \<and> ro_content (errorResponse e)
                    = Some (ApplicationJson, ''#/components/schemas/'' @ e)"
      by (rule bexI[OF _ e(1)]) (intro conjI e(2) e(3) e(4) ref)
    show "errorStatus E err
            = (case errorStatusMap E err of None \<Rightarrow> 500 | Some status \<Rightarrow> status)
          \<and> (\<exists>e \<in> set errors.
                lastWithStatus E (errorStatus E err) errors = Some e
                \<and> errorStatus E e = errorStatus E err
                \<and> op_responses op (errorStatus E err) = Some (errorResponse e)
                \<and> ro_content (errorResponse e)
                    = Some (ApplicationJson, ''#/components/schemas/'' @ e))
          \<and> ((op_responses op (errorStatus E err) = Some (errorResponse err))
               = (lastWithStatus E (errorStatus E err) errors = Some err))"
      by (rule conjI[OF st conjI[OF ex iff]])
  qed
  show ?thesis by (intro exI conjI) (rule c, rule p, rule all)
qed

theorem addDocRoute_error_responses_witness:
  "\<exists>st' op.
     addDocRoute testEnv getItemRoute emptyState = Inr st'
     \<and> pathEntry (paths st') ''/items/{id}'' Get = Some op
     \<and> errorStatus testEnv ''ValidationError'' = 400
     \<and> op_responses op 400 = Some (errorResponse ''ValidationError'')"
proof -
  have ev: "\<exists>op reg. compileOperation testEnv getItemRoute (schemas emptyState)
                = Inr (op, [''UnauthorizedError'', ''ValidationError''], reg)"
    by (simp add: instance_simps compile_simps)
  then have "\<exists>st'. addDocRoute testEnv getItemRoute emptyState = Inr st'"
    by (auto simp: addDocRoute_def)
  then obtain st' where r: "addDocRoute testEnv getItemRoute emptyState = Inr st'" by blast
  have t: "expressRouteToOpenApiRoute (rd_route getItemRoute) = ''/items/{id}''"
    "rd_method getItemRoute = Get"
    by (simp_all add: getItemRoute_def isWordChar_def)
  have s: "errorStatus testEnv ''ValidationError'' = 400"
    by (simp add: errorStatus_def testEnv_def)
  have l: "lastWithStatus testEnv 400 [''UnauthorizedError'', ''ValidationError'']
             = Some ''ValidationError''"
    by (simp add: lastWithStatus_def errorStatus_def testEnv_def)
  from ev obtain op0 reg0 where c0: "compileOperation testEnv getItemRoute (schemas emptyState)
                = Inr (op0, [''UnauthorizedError'', ''ValidationError''], reg0)" by blast
  from addDocRoute_error_responses[OF r] obtain op errors reg where
    c: "compileOperation testEnv getItemRoute (schemas emptyState) = Inr (op, errors, reg)"
    and p: "pathEntry (paths st') (expressRouteToOpenApiRoute (rd_route getItemRoute))
       (rd_method getItemRoute) = Some op"
    and all: "\<forall>err \<in> set errors.
          errorStatus testEnv err
            = (case errorStatusMap testEnv err of None \<Rightarrow> 500 | Some status \<Rightarrow> status)
          \<and> (\<exists>e \<in> set errors.
                lastWithStatus testEnv (errorStatus testEnv err) errors = Some e
                \<and> errorStatus testEnv e = errorStatus testEnv err
                \<and> op_responses op (errorStatus testEnv err) = Some (errorResponse e)
                \<and> ro_content (errorResponse e)
                    = Some (ApplicationJson, ''#/components/schemas/'' @ e))
          \<and> ((op_responses op (errorStatus testEnv err) = Some (errorResponse err))
               = (lastWithStatus testEnv (errorStatus testEnv err) errors = Some err))"
    by (elim exE conjE)
  from c c0 have es: "errors = [''UnauthorizedError'', ''ValidationError'']" by simp
  have m: "''ValidationError'' \<in> set errors" by (simp add: es)
  from bspec[OF all m] have "(op_responses op (errorStatus testEnv ''ValidationError'')
                    = Some (errorResponse ''ValidationError''))
        = (lastWithStatus testEnv (errorStatus testEnv ''ValidationError'') errors
             = Some ''ValidationError'')"
    by (elim conjE)
  with s l es have f: "op_responses op 400 = Some (errorResponse ''ValidationError'')" by simp
  from p t have g: "pathEntry (paths st') ''/items/{id}'' Get = Some op" by simp
  show ?thesis
    apply (rule exI[of _ st'])
    apply (rule exI[of _ op])
    apply (simp add: r s f g)
    done
qed

text \<open>
  Claim C6 as it is stated fails for two kinds of one status: both kinds of the route
  have no entry in the table and default to 500, and the entry at 500 references the
  second kind's schema, not the first's.
\<close>

theorem addDocRoute_error_responses_counterexample:
  "(case addDocRoute testEnv limitsRoute emptyState of
      Inl e \<Rightarrow> False
    | Inr st' \<Rightarrow>
        (case pathEntry (paths st') ''/files'' Get of
           None \<Rightarrow> False
         | Some op \<Rightarrow>
             declaredErrors limitsRoute = [''RateLimitError'', ''StorageError'']
             \<and> errorStatusMap testEnv ''RateLimitError'' = None
             \<and> errorStatus testEnv ''RateLimitError'' = 500
             \<and> op_responses op 500 = Some (errorResponse ''StorageError'')
             \<and> op_responses op 500 \<noteq> Some (errorResponse ''RateLimitError'')))"
  by (simp add: addDocRoute_def pathEntry_def registerOperation_def declaredErrors_def
        instance_simps compile_simps)

text \<open>
  Claim C10. The response map of the stored operation is the declared responses with
  the error responses written over them. So when the descriptor declares a response at
  status \<open>S\<close> and the final error list has a kind of status \<open>S\<close>, the entry at
  \<open>S\<close> is an error response (the one of the last such kind), whatever was declared.
\<close>

theorem addDocRoute_error_replaces_declared:
  assumes "addDocRoute E params st = Inr st'"
    and "(S, r) \<in> set (rd_responses params)"
  shows "\<exists>op errors reg rs reg5.
       compileOperation E params (schemas st) = Inr (op, errors, reg)
     \<and> pathEntry (paths st') (expressRouteToOpenApiRoute (rd_route params)) (rd_method params)
         = Some op
     \<and> responsesLoop E (rd_name params) (rd_responses params) (Map.empty, reg5) = Inr (rs, reg)
     \<and> op_responses op = errorsLoop E errors rs
     \<and> (\<forall>err \<in> set errors. errorStatus E err = S \<longrightarrow>
          (\<exists>e \<in> set errors. lastWithStatus E S errors = Some e \<and> errorStatus E e = S
             \<and> op_responses op S = Some (errorResponse e)))"
proof -
  from addDocRoute_compiled[OF assms(1)] obtain op errors reg where
    c: "compileOperation E params (schemas st) = Inr (op, errors, reg)"
    and p: "pathEntry (paths st') (expressRouteToOpenApiRoute (rd_route params))
              (rd_method params) = Some op" by blast
  from compileOperation_structure[OF c] obtain rs reg5 where
    l: "responsesLoop E (rd_name params) (rd_responses params) (Map.empty, reg5) = Inr (rs, reg)"
    and o: "op_responses op = errorsLoop E errors rs" by blast
  have all: "\<forall>err \<in> set errors. errorStatus E err = S \<longrightarrow>
          (\<exists>e \<in> set errors. lastWithStatus E S errors = Some e \<and> errorStatus E e = S
             \<and> op_responses op S = Some (errorResponse e))"
  proof (intro ballI impI)
    fix err assume m: "err \<in> set errors" and s: "errorStatus E err = S"
    from entry_after_errors[OF c m] s
    show "\<exists>e \<in> set errors. lastWithStatus E S errors = Some e \<and> errorStatus E e = S
             \<and> op_responses op S = Some (errorResponse e)" by simp
  qed
  show ?thesis by (intro exI conjI) (rule c, rule p, rule l, rule o, rule all)
qed

theorem addDocRoute_error_replaces_declared_witness:
  "\<exists>st' op.
     addDocRoute testEnv profileRoute emptyState = Inr st'
     \<and> 401 \<in> fst ` set (rd_responses profileRoute)
     \<and> pathEntry (paths st') ''/me'' Get = Some op
     \<and> errorStatus testEnv ''UnauthorizedError'' = 401
     \<and> op_responses op 401 = Some (errorResponse ''UnauthorizedError'')"
proof -
  have ev: "\<exists>op reg. compileOperation testEnv profileRoute (schemas emptyState)
                = Inr (op, [''UnauthorizedError''], reg)"
    by (simp add: instance_simps compile_simps)
  then have "\<exists>st'. addDocRoute testEnv profileRoute emptyState = Inr st'"
    by (auto simp: addDocRoute_def)
  then obtain st' where r: "addDocRoute testEnv profileRoute emptyState = Inr st'" by blast
  have d: "(401, \<lparr>rs_description = ''Sign in first'', rs_schema = None, rs_cookies = None,
                 rs_contentType = None\<rparr>) \<in> set (rd_responses profileRoute)"
    by (simp add: profileRoute_def)
  have t: "expressRouteToOpenApiRoute (rd_route profileRoute) = ''/me''"
    "rd_method profileRoute = Get"
    by (simp_all add: profileRoute_def)
  have s: "errorStatus testEnv ''UnauthorizedError'' = 401"
    by (simp add: errorStatus_def testEnv_def)
  have l: "lastWithStatus testEnv 401 [''UnauthorizedError''] = Some ''UnauthorizedError''"
    by (simp add: lastWithStatus_def errorStatus_def testEnv_def)
  from addDocRoute_error_replaces_declared[OF r d] ev obtain op where
    p: "pathEntry (paths st') (expressRouteToOpenApiRoute (rd_route profileRoute))
       (rd_method profileRoute) = Some op"
    and all: "\<forall>err \<in> set [''UnauthorizedError'']. errorStatus testEnv err = 401 \<longrightarrow>
          (\<exists>e \<in> set [''UnauthorizedError''].
             lastWithStatus testEnv 401 [''UnauthorizedError''] = Some e
             \<and> errorStatus testEnv e = 401
             \<and> op_responses op 401 = Some (errorResponse e))"
    by auto
  from all s have f: "op_responses op 401 = Some (errorResponse ''UnauthorizedError'')" by simp
  have h: "401 \<in> fst ` set (rd_responses profileRoute)" using d by force
  from p t have g: "pathEntry (paths st') ''/me'' Get = Some op" by simp
  show ?thesis
    apply (rule exI[of _ st'])
    apply (rule exI[of _ op])
    apply (simp add: r s f g h)
    done
qed

text \<open>
  Claim C7. A registration that returns leaves the compiled operation at the translated
  path and the method, whatever was there, and every other entry of the path table as
  it was.
\<close>

theorem addDocRoute_path_entry:
  assumes "addDocRoute E params st = Inr st'"
  shows "\<exists>op errors reg.
       compileOperation E params (schemas st) = Inr (op, errors, reg)
     \<and> pathEntry (paths st') (expressRouteToOpenApiRoute (rd_route params)) (rd_method params)
         = Some op
     \<and> (\<forall>p m. (p, m) \<noteq> (expressRouteToOpenApiRoute (rd_route params), rd_method params)
            \<longrightarrow> pathEntry (paths st') p m = pathEntry (paths st) p m)"
  using assms
  by (auto simp: addDocRoute_def pathEntry_def registerOperation_def
           split: sum.splits option.splits)

text \<open>Without file fields, or without a body, a registration always returns.\<close>

lemma responsesLoop_returns: "\<exists>res. responsesLoop E name l (rs, reg) = Inr res"
proof (induction l arbitrary: rs reg)
  case Nil
  show ?case by simp
next
  case (Cons x l)
  obtain statusCode r where x: "x = (statusCode, r)" by (cases x)
  show ?case using Cons.IH
    by (simp add: x addZodSchema_plain split: option.splits)
qed

lemma paramStep_returns: "\<exists>res. paramStep E name schema loc opt c = Inr res"
  by (cases c) (simp add: paramStep_def generateParamDocFromSchema_def addZodSchema_plain
       split: option.splits)

lemma bodyStep_returns:
  assumes "case rq of None \<Rightarrow> True
           | Some r \<Rightarrow> rq_body r = None \<or> rq_fileFields r = None \<or> rq_fileFields r = Some []"
  shows "\<exists>res. bodyStep E name rq c = Inr res"
  using assms
  by (cases c) (auto simp: bodyStep_def addZodSchema_plain split: option.splits)

lemma addDocRoute_returns:
  assumes "case rd_requestSchemas params of None \<Rightarrow> True
           | Some r \<Rightarrow> rq_body r = None \<or> rq_fileFields r = None \<or> rq_fileFields r = Some []"
  shows "\<exists>st'. addDocRoute E params st = Inr st'"
proof -
  let ?opt = "(case rd_requestSchemas params of
               None \<Rightarrow> []
             | Some rq \<Rightarrow> (case rq_optionalParams rq of None \<Rightarrow> [] | Some os \<Rightarrow> os))"
  obtain op1 errors1 where c1: "authStep E (rd_authenticatedUser params)
       (\<lparr>op_summary = rd_summary params, op_parameters = [],
                 op_responses = Map.empty, op_tags = rd_tags params,
                 op_security = None, op_requestBody = None\<rparr>,
        case rd_errors params of None \<Rightarrow> [] | Some es \<Rightarrow> es) = (op1, errors1)"
    by fastforce
  obtain c2 where c2: "paramStep E (rd_name params @ '':params'')
           (case rd_requestSchemas params of None \<Rightarrow> None | Some rq \<Rightarrow> rq_params rq)
           InPath ?opt (op1, errors1, schemas st) = Inr c2" using paramStep_returns by blast
  obtain c3 where c3: "paramStep E (rd_name params @ '':query'')
           (case rd_requestSchemas params of None \<Rightarrow> None | Some rq \<Rightarrow> rq_query rq)
           InQuery ?opt c2 = Inr c3" using paramStep_returns by blast
  obtain c4 where c4: "paramStep E (rd_name params @ '':cookies'')
           (case rd_requestSchemas params of None \<Rightarrow> None | Some rq \<Rightarrow> rq_cookies rq)
           InCookie ?opt c3 = Inr c4" using paramStep_returns by blast
  obtain c5 where c5: "bodyStep E (rd_name params) (rd_requestSchemas params) c4 = Inr c5"
    using bodyStep_returns[OF assms] by blast
  obtain op5 errors5 reg5 where c5': "c5 = (op5, errors5, reg5)" by (cases c5)
  obtain c6 where
    c6: "responsesLoop E (rd_name params) (rd_responses params) (op_responses op5, reg5) = Inr c6"
    using responsesLoop_returns by blast
  obtain rs6 reg6 where c6': "c6 = (rs6, reg6)" by (cases c6)
  have "compileOperation E params (schemas st)
          = Inr (op5\<lparr>op_responses := errorsLoop E errors5 rs6\<rparr>, errors5, reg6)"
    using c1 c2 c3 c4 c5 c5' c6 c6' by (simp add: compileOperation_def Let_def)
  then show ?thesis by (simp add: addDocRoute_def)
qed

theorem addDocRoute_path_entry_witness:
  "\<exists>st'. addDocRoute testEnv getItemRoute emptyState = Inr st'
     \<and> expressRouteToOpenApiRoute (rd_route getItemRoute) = ''/items/{id}''
     \<and> pathEntry (paths st') ''/items/{id}'' Get \<noteq> None
     \<and> pathEntry (paths st') ''/items/{id}'' Post = pathEntry (paths emptyState) ''/items/{id}'' Post"
proof -
  have "\<exists>st'. addDocRoute testEnv getItemRoute emptyState = Inr st'"
    by (rule addDocRoute_returns) (simp add: getItemRoute_def noRequestSchemas_def)
  then obtain st' where r: "addDocRoute testEnv getItemRoute emptyState = Inr st'" by blast
  have t: "expressRouteToOpenApiRoute (rd_route getItemRoute) = ''/items/{id}''"
    by (simp add: getItemRoute_def isWordChar_def)
  have m: "rd_method getItemRoute = Get" by (simp add: getItemRoute_def)
  from addDocRoute_path_entry[OF r] obtain op where
    e: "pathEntry (paths st') (expressRouteToOpenApiRoute (rd_route getItemRoute))
          (rd_method getItemRoute) = Some op"
    and o: "\<forall>p m. (p, m) \<noteq> (expressRouteToOpenApiRoute (rd_route getItemRoute),
                              rd_method getItemRoute)
            \<longrightarrow> pathEntry (paths st') p m = pathEntry (paths emptyState) p m"
    by (elim exE conjE)
  from o have f: "pathEntry (paths st') ''/items/{id}'' Post
                    = pathEntry (paths emptyState) ''/items/{id}'' Post"
    by (simp add: m)
  from e t m have g: "pathEntry (paths st') ''/items/{id}'' Get = Some op" by simp
  show ?thesis
    apply (rule exI[of _ st'])
    apply (simp add: r t f g)
    done
qed

text \<open>
  Claim C2 at the upload route: the body's conversion has components, so the
  registration does not return false; its first component has no \<^verbatim>\<open>properties\<close>,
  and writing the file field raises. No operation is registered.
\<close>

theorem addDocRoute_raises_TypeError:
  "addDocRoute testEnv avatarRoute emptyState = Inl TypeError"
  by (simp add: addDocRoute_def instance_simps compile_simps setSchemaProperty_def)

section \<open>Properties of the document assembler\<close>

lemma registerAll_map_add: "\<exists>f. \<forall>reg. registerAll E l reg = Inr (reg ++ f)"
proof (induction l)
  case Nil
  have "\<forall>reg. registerAll E [] reg = Inr (reg ++ Map.empty)" by simp
  then show ?case by blast
next
  case (Cons x l)
  obtain name schema where x: "x = (name, schema)" by (cases x)
  from Cons obtain f where f: "\<And>reg. registerAll E l reg = Inr (reg ++ f)" by blast
  show ?case
  proof (cases "sr_components (createSchema E schema)")
    case None
    then have "\<forall>reg. registerAll E (x # l) reg = Inr (reg ++ f)"
      by (simp add: x addZodSchema_plain f)
    then show ?thesis by blast
  next
    case (Some cs)
    have "\<forall>reg. registerAll E (x # l) reg = Inr (reg ++ ([name \<mapsto> firstComponent cs] ++ f))"
      by (simp add: x addZodSchema_plain f Some map_add_upd_left)
    then show ?thesis by blast
  qed
qed

lemma map_add_again: "((m ++ f ++ g) ++ f) ++ g = (m ++ f) ++ g"
  by (rule ext) (simp add: map_add_def split: option.splits)

lemma build_registry:
  "\<exists>f g. \<forall>reg. registerAll E (baseSchemas E) reg = Inr (reg ++ f)
        \<and> addErrorComponents E reg = Inr (reg ++ g)"
  using registerAll_map_add[of E "baseSchemas E"]
    registerAll_map_add[of E "map (\<lambda>name. (name, customErrorSchema E name)) (errorNames E)"]
  unfolding addErrorComponents_def by blast

text \<open>The build returns unless it has to write the file and cannot.\<close>

lemma buildOpenApiDoc_returns:
  "w \<or> NODE_ENV E \<noteq> ''development'' \<Longrightarrow> \<exists>doc st'. buildOpenApiDoc E w st = Inr (doc, st')"
  using build_registry[of E]
  by (auto simp: buildOpenApiDoc_def Let_def createOpenApiFile_def)

text \<open>
  Claim C9. After a build that returned a document, a second build with no registration
  in between returns the same document and leaves the registry and the path table as
  the first build left them; the only way it does not return is the failure to write
  the file in development mode. The first build does not touch the path table.
\<close>

theorem buildOpenApiDoc_rebuild:
  assumes "buildOpenApiDoc E w1 st = Inr (doc1, st1)"
  shows "paths st1 = paths st
     \<and> (if NODE_ENV E = ''development'' \<and> \<not> w2
         then buildOpenApiDoc E w2 st1 = Inl IOError
         else \<exists>st2. buildOpenApiDoc E w2 st1 = Inr (doc1, st2)
                \<and> schemas st2 = schemas st1 \<and> paths st2 = paths st1)"
proof -
  from build_registry[of E] obtain f g where
    f: "\<And>reg. registerAll E (baseSchemas E) reg = Inr (reg ++ f)"
    and g: "\<And>reg. addErrorComponents E reg = Inr (reg ++ g)" by blast
  from assms have s1: "schemas st1 = (schemas st ++ f) ++ g" and p1: "paths st1 = paths st"
    and d1: "doc1 = createDocument E
                      \<lparr>di_openapi = ''3.0.0'',
                       di_info = [(''title'', ''My API''), (''version'', ''1.0.0'')],
                       di_paths = paths st,
                       di_schemas = (schemas st ++ f) ++ g,
                       di_securitySchemes =
                         [(''bearerAuth'',
                           [(''type'', ''http''), (''scheme'', ''bearer''),
                            (''bearerFormat'', ''JWT'')])]\<rparr>"
    by (auto simp: buildOpenApiDoc_def f g Let_def createOpenApiFile_def split: if_splits)
  have again: "((schemas st1 ++ f) ++ g) = schemas st1"
    unfolding s1 using map_add_again[of "schemas st" f g] by simp
  show ?thesis
    using p1
    by (simp add: buildOpenApiDoc_def f g Let_def createOpenApiFile_def again d1 s1[symmetric])
qed

theorem buildOpenApiDoc_rebuild_witness:
  "\<exists>doc1 st1 st2. buildOpenApiDoc testEnv True emptyState = Inr (doc1, st1)
     \<and> buildOpenApiDoc testEnv True st1 = Inr (doc1, st2)
     \<and> schemas st2 = schemas st1 \<and> paths st2 = paths st1"
proof -
  from buildOpenApiDoc_returns[of True testEnv emptyState] obtain doc1 st1 where
    b: "buildOpenApiDoc testEnv True emptyState = Inr (doc1, st1)" by blast
  from buildOpenApiDoc_rebuild[OF b, of True] b show ?thesis by auto
qed

end
